theory Spec2Isabelle
  imports Complex_Main
begin

section \<open>Python values, exceptions and dictionaries\<close>

text \<open>
  The client functions exchange JSON documents with the remote service and hand them to
  their callers as Python values. A dictionary is an association list in insertion order,
  read with \<open>map_of\<close>.
\<close>

datatype json =
    JNull
  | JBool bool
  | JInt int
  | JFloat real
  | JStr string
  | JArr "json list"
  | JObj "(string \<times> json) list"

datatype exn =
    KeyError string
  | TypeError
  | AttributeError
  | ValueError
  | ZeroDivisionError
  | UnicodeDecodeError
  | JSONDecodeError
  | TransportError
  | HTTPStatusError int
  | TimeoutError string

text \<open>Truth value of a Python object, as tested by \<^verbatim>\<open>if x:\<close>.\<close>

fun truthy :: "json \<Rightarrow> bool" where
  "truthy JNull = False"
| "truthy (JBool b) = b"
| "truthy (JInt i) = (i \<noteq> 0)"
| "truthy (JFloat r) = (r \<noteq> 0)"
| "truthy (JStr s) = (s \<noteq> [])"
| "truthy (JArr xs) = (xs \<noteq> [])"
| "truthy (JObj kvs) = (kvs \<noteq> [])"

text \<open>\<^verbatim>\<open>d[k] = v\<close>: replaces the value of an existing key, appends a new key.\<close>

fun dict_set :: "(string \<times> json) list \<Rightarrow> string \<Rightarrow> json \<Rightarrow> (string \<times> json) list" where
  "dict_set [] k v = [(k, v)]"
| "dict_set ((k', v') # kvs) k v =
     (if k' = k then (k, v) # kvs else (k', v') # dict_set kvs k v)"

text \<open>\<^verbatim>\<open>if x: d[k] = x\<close> for an optional argument \<open>x\<close> (\<open>None\<close> is falsy).\<close>

definition set_if_truthy ::
  "(string \<times> json) list \<Rightarrow> string \<Rightarrow> json option \<Rightarrow> (string \<times> json) list" where
  "set_if_truthy d k x =
     (case x of None \<Rightarrow> d | Some v \<Rightarrow> if truthy v then dict_set d k v else d)"

text \<open>\<^verbatim>\<open>if x is not None: d[k] = x\<close>.\<close>

definition set_if_not_none ::
  "(string \<times> json) list \<Rightarrow> string \<Rightarrow> json option \<Rightarrow> (string \<times> json) list" where
  "set_if_not_none d k x = (case x of None \<Rightarrow> d | Some v \<Rightarrow> dict_set d k v)"

text \<open>
  \<^verbatim>\<open>x[k]\<close> with a string key: a dictionary raises \<open>KeyError\<close> on a missing key, every
  other JSON value raises \<open>TypeError\<close>.
\<close>

fun subscript :: "json \<Rightarrow> string \<Rightarrow> exn + json" where
  "subscript (JObj kvs) k =
     (case map_of kvs k of None \<Rightarrow> Inl (KeyError k) | Some v \<Rightarrow> Inr v)"
| "subscript _ k = Inl TypeError"

text \<open>
  \<^verbatim>\<open>x.get(k, default)\<close>: only a dictionary has the method, every other JSON value raises
  \<open>AttributeError\<close>.
\<close>

fun dict_get :: "json \<Rightarrow> string \<Rightarrow> json \<Rightarrow> exn + json" where
  "dict_get (JObj kvs) k d = Inr (case map_of kvs k of None \<Rightarrow> d | Some v \<Rightarrow> v)"
| "dict_get _ k d = Inl AttributeError"

text \<open>\<^verbatim>\<open>len(x)\<close> is defined on strings, lists and dictionaries only.\<close>

fun py_len :: "json \<Rightarrow> exn + nat" where
  "py_len (JStr s) = Inr (length s)"
| "py_len (JArr xs) = Inr (length xs)"
| "py_len (JObj kvs) = Inr (length kvs)"
| "py_len _ = Inl TypeError"

text \<open>Formatting inside an f-string: \<^verbatim>\<open>f"{x}"\<close> of an optional string and of an integer.\<close>

definition fstr :: "string option \<Rightarrow> string" where
  "fstr x = (case x of None \<Rightarrow> ''None'' | Some s \<Rightarrow> s)"

definition digit_char :: "nat \<Rightarrow> char" where
  "digit_char d = ''0123456789'' ! d"

function str_nat :: "nat \<Rightarrow> string" where
  "str_nat n = (if n < 10 then [digit_char n] else str_nat (n div 10) @ [digit_char (n mod 10)])"
  by pat_completeness auto
termination
  by (relation "measure id") auto

declare str_nat.simps [simp del]

definition str_int :: "int \<Rightarrow> string" where
  "str_int i = (if i < 0 then CHR ''-'' # str_nat (nat (- i)) else str_nat (nat i))"

section \<open>The HTTP layer and the world the client runs in\<close>

datatype http_method = GET | POST | PATCH | DELETE

text \<open>One entry of httpx's \<^verbatim>\<open>files=\<close> argument: file name, content, content type.\<close>

datatype file_part = FilePart "string option" string "string option"

record request =
  http_method :: http_method
  url :: string
  headers :: "(string \<times> string) list"
  params :: "(string \<times> json) list option"
  json_body :: "json option"
  files :: "(string \<times> file_part) list option"
  follow_redirects :: bool

text \<open>
  What comes back for a request: no response at all (httpx raises a transport error), or a
  response with a status code and a body, which is \<open>None\<close> when it is not a JSON document.
\<close>

datatype reply = ConnectionFailed | Response int "json option"

text \<open>
  What the client does to the outside: it calls httpx with a request (\<open>Sent\<close>), or it
  sleeps for a number of seconds (\<open>Slept\<close>).
\<close>

datatype event = Sent request | Slept int

text \<open>
  The world: the process environment, the remote service as the replies it will give to the
  requests still to come (the head of the sequence answers the next request), the time each
  of these requests will take, the wall clock, and the trace of what the client did.
\<close>

record world =
  environ :: "string \<Rightarrow> string option"
  remote :: "nat \<Rightarrow> request \<Rightarrow> reply"
  latency :: "nat \<Rightarrow> real"
  clock :: real
  trace :: "event list"

definition getenv :: "world \<Rightarrow> string \<Rightarrow> string option" where
  "getenv w name = environ w name"

text \<open>
  \<^verbatim>\<open>httpx.get/post/patch/delete\<close>: the request goes out, takes its time, and the remote
  service moves on to its next reply.
\<close>

definition request_sent :: "request \<Rightarrow> world \<Rightarrow> world" where
  "request_sent req w =
     w\<lparr>remote := (\<lambda>n. remote w (Suc n)),
       latency := (\<lambda>n. latency w (Suc n)),
       clock := clock w + latency w 0,
       trace := trace w @ [Sent req]\<rparr>"

definition httpx_request :: "request \<Rightarrow> world \<Rightarrow> (exn + reply) \<times> world" where
  "httpx_request req w =
     (let w' = request_sent req w
      in case remote w 0 req of
           ConnectionFailed \<Rightarrow> (Inl TransportError, w')
         | Response code body \<Rightarrow> (Inr (Response code body), w'))"

text \<open>\<^verbatim>\<open>response.raise_for_status()\<close>: every status outside 2xx raises.\<close>

fun raise_for_status :: "reply \<Rightarrow> exn + unit" where
  "raise_for_status (Response code body) =
     (if 200 \<le> code \<and> code \<le> 299 then Inr () else Inl (HTTPStatusError code))"
| "raise_for_status ConnectionFailed = Inl TransportError"

text \<open>\<^verbatim>\<open>response.json()\<close>.\<close>

fun response_json :: "reply \<Rightarrow> exn + json" where
  "response_json (Response code (Some j)) = Inr j"
| "response_json (Response code None) = Inl JSONDecodeError"
| "response_json ConnectionFailed = Inl TransportError"

text \<open>
  The tail shared by every client function that returns a document:
  \<^verbatim>\<open>response = httpx.<method>(...); response.raise_for_status(); return response.json()\<close>.
\<close>

definition send_for_json :: "request \<Rightarrow> world \<Rightarrow> (exn + json) \<times> world" where
  "send_for_json req w =
     (case httpx_request req w of
        (Inl e, w') \<Rightarrow> (Inl e, w')
      | (Inr response, w') \<Rightarrow>
          (case raise_for_status response of
             Inl e \<Rightarrow> (Inl e, w')
           | Inr _ \<Rightarrow> (response_json response, w')))"

text \<open>\<^verbatim>\<open>time.sleep(seconds)\<close>: a negative length raises \<open>ValueError\<close>.\<close>

definition slept :: "int \<Rightarrow> world \<Rightarrow> world" where
  "slept seconds w =
     w\<lparr>clock := clock w + real_of_int seconds, trace := trace w @ [Slept seconds]\<rparr>"

definition time_sleep :: "int \<Rightarrow> world \<Rightarrow> (exn + unit) \<times> world" where
  "time_sleep seconds w =
     (if seconds < 0 then (Inl ValueError, w) else (Inr (), slept seconds w))"

section \<open>basic/scan.py\<close>

definition create_scan_request :: "world \<Rightarrow> string \<Rightarrow> string option \<Rightarrow> request" where
  "create_scan_request w study_uuid product =
     (let api_url = getenv w ''API'';
          token = getenv w ''API_TOKEN'';
          hdrs = [(''Authorization'', ''Bearer '' @ fstr token),
                  (''Content-Type'', ''application/json'')];
          data = [(''study'', JStr study_uuid)];
          data = set_if_truthy data ''product'' (map_option JStr product)
      in \<lparr>http_method = POST, url = fstr api_url @ ''/api/v2/scans/'', headers = hdrs,
          params = None, json_body = Some (JObj data), files = None,
          follow_redirects = False\<rparr>)"

definition create_scan :: "string \<Rightarrow> string option \<Rightarrow> world \<Rightarrow> (exn + json) \<times> world" where
  "create_scan study_uuid product w = send_for_json (create_scan_request w study_uuid product) w"

definition get_scan_request :: "world \<Rightarrow> string \<Rightarrow> request" where
  "get_scan_request w uuid =
     (let api_url = getenv w ''API'';
          token = getenv w ''API_TOKEN'';
          hdrs = [(''Authorization'', ''Bearer '' @ fstr token),
                  (''Content-Type'', ''application/json'')]
      in \<lparr>http_method = GET, url = fstr api_url @ ''/api/v2/scans/'' @ uuid @ ''/'',
          headers = hdrs, params = None, json_body = None, files = None,
          follow_redirects = False\<rparr>)"

definition get_scan :: "string \<Rightarrow> world \<Rightarrow> (exn + json) \<times> world" where
  "get_scan uuid w = send_for_json (get_scan_request w uuid) w"

text \<open>
  \<^verbatim>\<open>wait_for_scan_completion\<close>: the \<^verbatim>\<open>while True\<close> loop. A run that never leaves the loop
  has the value \<open>None\<close>.
\<close>

partial_function (option) poll_loop ::
  "string \<Rightarrow> int \<Rightarrow> int \<Rightarrow> real \<Rightarrow> world \<Rightarrow> ((exn + json) \<times> world) option" where
  "poll_loop scan_uuid timeout poll_interval start_time w =
     (case get_scan scan_uuid w of
        (Inl e, w1) \<Rightarrow> Some (Inl e, w1)
      | (Inr scan, w1) \<Rightarrow>
          (case subscript scan ''status'' of
             Inl e \<Rightarrow> Some (Inl e, w1)
           | Inr status \<Rightarrow>
               if status \<in> set [JStr ''COMPLETED'', JStr ''FAILED''] then Some (Inr scan, w1)
               else if clock w1 - start_time > real_of_int timeout then
                 Some (Inl (TimeoutError (''Scan '' @ scan_uuid @ '' did not complete within ''
                                          @ str_int timeout @ '' seconds'')), w1)
               else (case time_sleep poll_interval w1 of
                       (Inl e, w2) \<Rightarrow> Some (Inl e, w2)
                     | (Inr _, w2) \<Rightarrow>
                         poll_loop scan_uuid timeout poll_interval start_time w2)))"


definition get_scan_progress :: "string \<Rightarrow> world \<Rightarrow> (exn + json) \<times> world" where
  "get_scan_progress scan_uuid w = get_scan scan_uuid w"

text \<open>The other two client functions of the module, as the requests they issue.\<close>

definition get_scans_request ::
  "world \<Rightarrow> string option \<Rightarrow> int option \<Rightarrow> int option \<Rightarrow> request" where
  "get_scans_request w study_uuid page page_size =
     (let api_url = getenv w ''API'';
          token = getenv w ''API_TOKEN'';
          hdrs = [(''Authorization'', ''Bearer '' @ fstr token),
                  (''Content-Type'', ''application/json'')];
          ps = [];
          ps = set_if_truthy ps ''study'' (map_option JStr study_uuid);
          ps = set_if_truthy ps ''page'' (map_option JInt page);
          ps = set_if_truthy ps ''page_size'' (map_option JInt page_size)
      in \<lparr>http_method = GET, url = fstr api_url @ ''/api/v2/scans/'', headers = hdrs,
          params = Some ps, json_body = None, files = None, follow_redirects = False\<rparr>)"

definition delete_scan_request :: "world \<Rightarrow> string \<Rightarrow> request" where
  "delete_scan_request w uuid =
     (let api_url = getenv w ''API'';
          token = getenv w ''API_TOKEN'';
          hdrs = [(''Authorization'', ''Bearer '' @ fstr token),
                  (''Content-Type'', ''application/json'')]
      in \<lparr>http_method = DELETE, url = fstr api_url @ ''/api/v2/scans/'' @ uuid @ ''/'',
          headers = hdrs, params = None, json_body = None, files = None,
          follow_redirects = False\<rparr>)"

section \<open>basic/study.py\<close>

definition get_studies_request ::
  "world \<Rightarrow> int option \<Rightarrow> int option \<Rightarrow> string option \<Rightarrow> string option \<Rightarrow> request" where
  "get_studies_request w page page_size name uuid =
     (let api_url = getenv w ''API'';
          token = getenv w ''API_TOKEN'';
          hdrs = [(''Authorization'', ''Bearer '' @ fstr token),
                  (''Content-Type'', ''application/json'')];
          ps = [];
          ps = set_if_truthy ps ''page'' (map_option JInt page);
          ps = set_if_truthy ps ''page_size'' (map_option JInt page_size);
          ps = set_if_truthy ps ''name'' (map_option JStr name);
          ps = set_if_truthy ps ''uuid'' (map_option JStr uuid)
      in \<lparr>http_method = GET, url = fstr api_url @ ''/api/v2/studies/'', headers = hdrs,
          params = Some ps, json_body = None, files = None, follow_redirects = False\<rparr>)"

definition create_study_request ::
  "world \<Rightarrow> int \<Rightarrow> string option \<Rightarrow> real option \<Rightarrow> real option \<Rightarrow> string option \<Rightarrow> request" where
  "create_study_request w age name height weight sex =
     (let api_url = getenv w ''API'';
          token = getenv w ''API_TOKEN'';
          hdrs = [(''Authorization'', ''Bearer '' @ fstr token),
                  (''Content-Type'', ''application/json'')];
          data = [(''age'', JInt age)];
          data = set_if_truthy data ''name'' (map_option JStr name);
          data = set_if_truthy data ''height'' (map_option JFloat height);
          data = set_if_truthy data ''weight'' (map_option JFloat weight);
          data = set_if_truthy data ''sex'' (map_option JStr sex)
      in \<lparr>http_method = POST, url = fstr api_url @ ''/api/v2/studies/'', headers = hdrs,
          params = None, json_body = Some (JObj data), files = None,
          follow_redirects = False\<rparr>)"

definition get_study_request :: "world \<Rightarrow> string \<Rightarrow> request" where
  "get_study_request w uuid =
     (let api_url = getenv w ''API'';
          token = getenv w ''API_TOKEN'';
          hdrs = [(''Authorization'', ''Bearer '' @ fstr token),
                  (''Content-Type'', ''application/json'')]
      in \<lparr>http_method = GET, url = fstr api_url @ ''/api/v2/studies/'' @ uuid @ ''/'',
          headers = hdrs, params = None, json_body = None, files = None,
          follow_redirects = False\<rparr>)"

definition update_study_request :: "world \<Rightarrow> string \<Rightarrow> (string \<times> json) list \<Rightarrow> request" where
  "update_study_request w uuid updates =
     (let api_url = getenv w ''API'';
          token = getenv w ''API_TOKEN'';
          hdrs = [(''Authorization'', ''Bearer '' @ fstr token),
                  (''Content-Type'', ''application/json'')]
      in \<lparr>http_method = PATCH, url = fstr api_url @ ''/api/v2/studies/'' @ uuid @ ''/'',
          headers = hdrs, params = None, json_body = Some (JObj updates), files = None,
          follow_redirects = False\<rparr>)"

definition delete_study_request :: "world \<Rightarrow> string \<Rightarrow> request" where
  "delete_study_request w uuid =
     (let api_url = getenv w ''API'';
          token = getenv w ''API_TOKEN'';
          hdrs = [(''Authorization'', ''Bearer '' @ fstr token),
                  (''Content-Type'', ''application/json'')]
      in \<lparr>http_method = DELETE, url = fstr api_url @ ''/api/v2/studies/'' @ uuid @ ''/'',
          headers = hdrs, params = None, json_body = None, files = None,
          follow_redirects = False\<rparr>)"

section \<open>basic/dicom.py\<close>

text \<open>
  The two upload functions open the file first; \<open>file_name\<close> is \<^verbatim>\<open>Path(file_path).name\<close>
  and \<open>content\<close> what the opened file holds.
\<close>

definition upload_dicom_request :: "world \<Rightarrow> string \<Rightarrow> string \<Rightarrow> string \<Rightarrow> request" where
  "upload_dicom_request w study_uuid file_name content =
     (let api_url = getenv w ''API'';
          token = getenv w ''API_TOKEN'';
          hdrs = [(''Authorization'', ''Bearer '' @ fstr token)];
          fs = [(''file'', FilePart (Some file_name) content (Some ''application/dicom'')),
                (''study'', FilePart None study_uuid None)]
      in \<lparr>http_method = POST, url = fstr api_url @ ''/api/v2/dicoms/'', headers = hdrs,
          params = None, json_body = None, files = Some fs, follow_redirects = False\<rparr>)"

definition get_dicoms_request ::
  "world \<Rightarrow> string option \<Rightarrow> int option \<Rightarrow> int option \<Rightarrow> request" where
  "get_dicoms_request w study_uuid page page_size =
     (let api_url = getenv w ''API'';
          token = getenv w ''API_TOKEN'';
          hdrs = [(''Authorization'', ''Bearer '' @ fstr token),
                  (''Content-Type'', ''application/json'')];
          ps = [];
          ps = set_if_truthy ps ''study'' (map_option JStr study_uuid);
          ps = set_if_truthy ps ''page'' (map_option JInt page);
          ps = set_if_truthy ps ''page_size'' (map_option JInt page_size)
      in \<lparr>http_method = GET, url = fstr api_url @ ''/api/v2/dicoms/'', headers = hdrs,
          params = Some ps, json_body = None, files = None, follow_redirects = False\<rparr>)"

definition get_dicom_request :: "world \<Rightarrow> string \<Rightarrow> request" where
  "get_dicom_request w uuid =
     (let api_url = getenv w ''API'';
          token = getenv w ''API_TOKEN'';
          hdrs = [(''Authorization'', ''Bearer '' @ fstr token),
                  (''Content-Type'', ''application/json'')]
      in \<lparr>http_method = GET, url = fstr api_url @ ''/api/v2/dicoms/'' @ uuid @ ''/'',
          headers = hdrs, params = None, json_body = None, files = None,
          follow_redirects = False\<rparr>)"

definition download_dicom_file_request :: "world \<Rightarrow> string \<Rightarrow> string \<Rightarrow> request" where
  "download_dicom_file_request w uuid filename =
     (let api_url = getenv w ''API'';
          token = getenv w ''API_TOKEN'';
          hdrs = [(''Authorization'', ''Bearer '' @ fstr token)]
      in \<lparr>http_method = GET,
          url = fstr api_url @ ''/api/v2/dicoms/file/'' @ uuid @ ''/'' @ filename @ ''/'',
          headers = hdrs, params = None, json_body = None, files = None,
          follow_redirects = True\<rparr>)"

definition delete_dicom_request :: "world \<Rightarrow> string \<Rightarrow> request" where
  "delete_dicom_request w uuid =
     (let api_url = getenv w ''API'';
          token = getenv w ''API_TOKEN'';
          hdrs = [(''Authorization'', ''Bearer '' @ fstr token),
                  (''Content-Type'', ''application/json'')]
      in \<lparr>http_method = DELETE, url = fstr api_url @ ''/api/v2/dicoms/'' @ uuid @ ''/'',
          headers = hdrs, params = None, json_body = None, files = None,
          follow_redirects = False\<rparr>)"

definition idempotent_dicom_upload_request :: "world \<Rightarrow> string \<Rightarrow> string \<Rightarrow> request" where
  "idempotent_dicom_upload_request w file_name content =
     (let api_url = getenv w ''API'';
          token = getenv w ''API_TOKEN'';
          hdrs = [(''Authorization'', ''Bearer '' @ fstr token)];
          fs = [(''file'', FilePart (Some file_name) content (Some ''application/dicom''))]
      in \<lparr>http_method = POST, url = fstr api_url @ ''/api/v2/idempotent_dicom/'',
          headers = hdrs, params = None, json_body = None, files = Some fs,
          follow_redirects = False\<rparr>)"

section \<open>basic/webhooks.py\<close>

definition create_webhook_request :: "world \<Rightarrow> string \<Rightarrow> request" where
  "create_webhook_request w target =
     (let api_url = getenv w ''API'';
          token = getenv w ''API_TOKEN'';
          hdrs = [(''Authorization'', ''Token '' @ fstr token),
                  (''Content-Type'', ''application/json'')];
          data = [(''url'', JStr target)]
      in \<lparr>http_method = POST, url = fstr api_url @ ''/api/v2/webhook/'', headers = hdrs,
          params = None, json_body = Some (JObj data), files = None,
          follow_redirects = False\<rparr>)"

definition get_webhooks_request :: "world \<Rightarrow> int option \<Rightarrow> int option \<Rightarrow> request" where
  "get_webhooks_request w page page_size =
     (let api_url = getenv w ''API'';
          token = getenv w ''API_TOKEN'';
          hdrs = [(''Authorization'', ''Token '' @ fstr token),
                  (''Content-Type'', ''application/json'')];
          ps = [];
          ps = set_if_truthy ps ''page'' (map_option JInt page);
          ps = set_if_truthy ps ''page_size'' (map_option JInt page_size)
      in \<lparr>http_method = GET, url = fstr api_url @ ''/api/v2/webhook/'', headers = hdrs,
          params = Some ps, json_body = None, files = None, follow_redirects = False\<rparr>)"

definition get_webhook_request :: "world \<Rightarrow> string \<Rightarrow> request" where
  "get_webhook_request w uuid =
     (let api_url = getenv w ''API'';
          token = getenv w ''API_TOKEN'';
          hdrs = [(''Authorization'', ''Token '' @ fstr token),
                  (''Content-Type'', ''application/json'')]
      in \<lparr>http_method = GET, url = fstr api_url @ ''/api/v2/webhook/'' @ uuid @ ''/'',
          headers = hdrs, params = None, json_body = None, files = None,
          follow_redirects = False\<rparr>)"

definition update_webhook_request :: "world \<Rightarrow> string \<Rightarrow> string \<Rightarrow> request" where
  "update_webhook_request w uuid target =
     (let api_url = getenv w ''API'';
          token = getenv w ''API_TOKEN'';
          hdrs = [(''Authorization'', ''Token '' @ fstr token),
                  (''Content-Type'', ''application/json'')];
          data = [(''url'', JStr target)]
      in \<lparr>http_method = PATCH, url = fstr api_url @ ''/api/v2/webhook/'' @ uuid @ ''/'',
          headers = hdrs, params = None, json_body = Some (JObj data), files = None,
          follow_redirects = False\<rparr>)"

definition delete_webhook_request :: "world \<Rightarrow> string \<Rightarrow> request" where
  "delete_webhook_request w uuid =
     (let api_url = getenv w ''API'';
          token = getenv w ''API_TOKEN'';
          hdrs = [(''Authorization'', ''Token '' @ fstr token),
                  (''Content-Type'', ''application/json'')]
      in \<lparr>http_method = DELETE, url = fstr api_url @ ''/api/v2/webhook/'' @ uuid @ ''/'',
          headers = hdrs, params = None, json_body = None, files = None,
          follow_redirects = False\<rparr>)"

section \<open>basic/reports.py\<close>

definition get_reports_request ::
  "world \<Rightarrow> string option \<Rightarrow> string option \<Rightarrow> int option \<Rightarrow> int option \<Rightarrow> request" where
  "get_reports_request w study_uuid scan_uuid page page_size =
     (let api_url = getenv w ''API'';
          token = getenv w ''API_TOKEN'';
          hdrs = [(''Authorization'', ''Token '' @ fstr token),
                  (''Content-Type'', ''application/json'')];
          ps = [];
          ps = set_if_truthy ps ''study'' (map_option JStr study_uuid);
          ps = set_if_truthy ps ''scan'' (map_option JStr scan_uuid);
          ps = set_if_truthy ps ''page'' (map_option JInt page);
          ps = set_if_truthy ps ''page_size'' (map_option JInt page_size)
      in \<lparr>http_method = GET, url = fstr api_url @ ''/api/v2/reports/'', headers = hdrs,
          params = Some ps, json_body = None, files = None, follow_redirects = False\<rparr>)"

definition get_report_request :: "world \<Rightarrow> string \<Rightarrow> request" where
  "get_report_request w uuid =
     (let api_url = getenv w ''API'';
          token = getenv w ''API_TOKEN'';
          hdrs = [(''Authorization'', ''Token '' @ fstr token),
                  (''Content-Type'', ''application/json'')]
      in \<lparr>http_method = GET, url = fstr api_url @ ''/api/v2/reports/'' @ uuid @ ''/'',
          headers = hdrs, params = None, json_body = None, files = None,
          follow_redirects = False\<rparr>)"

definition get_report :: "string \<Rightarrow> world \<Rightarrow> (exn + json) \<times> world" where
  "get_report uuid w = send_for_json (get_report_request w uuid) w"

definition get_report_html_request :: "world \<Rightarrow> string \<Rightarrow> request" where
  "get_report_html_request w report_uuid =
     (let api_url = getenv w ''API'';
          token = getenv w ''API_TOKEN'';
          hdrs = [(''Authorization'', ''Token '' @ fstr token),
                  (''Content-Type'', ''application/json'')]
      in \<lparr>http_method = GET,
          url = fstr api_url @ ''/api/v2/reports/'' @ report_uuid @ ''/html/'',
          headers = hdrs, params = None, json_body = None, files = None,
          follow_redirects = False\<rparr>)"

definition get_echogpt_responses_request :: "world \<Rightarrow> request" where
  "get_echogpt_responses_request w =
     (let api_url = getenv w ''API'';
          token = getenv w ''API_TOKEN'';
          hdrs = [(''Authorization'', ''Token '' @ fstr token),
                  (''Content-Type'', ''application/json'')]
      in \<lparr>http_method = GET, url = fstr api_url @ ''/api/v2/echogpt/report/'',
          headers = hdrs, params = None, json_body = None, files = None,
          follow_redirects = False\<rparr>)"

definition get_echogpt_response_request :: "world \<Rightarrow> string \<Rightarrow> request" where
  "get_echogpt_response_request w uuid =
     (let api_url = getenv w ''API'';
          token = getenv w ''API_TOKEN'';
          hdrs = [(''Authorization'', ''Token '' @ fstr token),
                  (''Content-Type'', ''application/json'')]
      in \<lparr>http_method = GET,
          url = fstr api_url @ ''/api/v2/echogpt/report/'' @ uuid @ ''/'',
          headers = hdrs, params = None, json_body = None, files = None,
          follow_redirects = False\<rparr>)"

definition create_user_measurement_request ::
  "world \<Rightarrow> string \<Rightarrow> string \<Rightarrow> string \<Rightarrow> string \<Rightarrow> json list \<Rightarrow> int option \<Rightarrow>
   real option \<Rightarrow> string option \<Rightarrow> (string \<times> json) list option \<Rightarrow> request" where
  "create_user_measurement_request w dicom_uuid measurement_key measurement_type keyframe_type
       measurement_metadata frame_index val unit extra_metadata =
     (let api_url = getenv w ''API'';
          token = getenv w ''API_TOKEN'';
          hdrs = [(''Authorization'', ''Token '' @ fstr token),
                  (''Content-Type'', ''application/json'')];
          data = [(''dicom_uuid'', JStr dicom_uuid),
                  (''measurement_key'', JStr measurement_key),
                  (''measurement_type'', JStr measurement_type),
                  (''keyframe_type'', JStr keyframe_type),
                  (''measurement_metadata'', JArr measurement_metadata)];
          data = set_if_not_none data ''frame_index'' (map_option JInt frame_index);
          data = set_if_not_none data ''value'' (map_option JFloat val);
          data = set_if_not_none data ''unit'' (map_option JStr unit);
          data = set_if_not_none data ''extra_metadata'' (map_option JObj extra_metadata)
      in \<lparr>http_method = POST, url = fstr api_url @ ''/api/v2/measurements/'',
          headers = hdrs, params = None, json_body = Some (JObj data), files = None,
          follow_redirects = False\<rparr>)"

definition get_api_version_request :: "world \<Rightarrow> request" where
  "get_api_version_request w =
     (let api_url = getenv w ''API'';
          token = getenv w ''API_TOKEN'';
          hdrs = [(''Authorization'', ''Token '' @ fstr token),
                  (''Content-Type'', ''application/json'')]
      in \<lparr>http_method = GET, url = fstr api_url @ ''/api/v2/version'',
          headers = hdrs, params = None, json_body = None, files = None,
          follow_redirects = False\<rparr>)"

section \<open>basic/all\_studies.py\<close>

text \<open>
  \<^verbatim>\<open>get_all_studies_with_measurements\<close> takes its eleven optional string filters in the
  order the function sets them: q, name, uuid, created\_at\_\_gte, created\_at\_\_lte,
  scan\_product, scan\_status, user\_email, view\_types, diseases, measurements.
\<close>

definition get_all_studies_with_measurements_request ::
  "world \<Rightarrow> int option \<Rightarrow> int option \<Rightarrow> string option \<Rightarrow> string option \<Rightarrow> string option \<Rightarrow>
   string option \<Rightarrow> string option \<Rightarrow> string option \<Rightarrow> string option \<Rightarrow> string option \<Rightarrow>
   string option \<Rightarrow> string option \<Rightarrow> string option \<Rightarrow> request" where
  "get_all_studies_with_measurements_request w page page_size q name uuid created_at_gte
       created_at_lte scan_product scan_status user_email view_types diseases measurements =
     (let api_url = getenv w ''API'';
          token = getenv w ''API_TOKEN'';
          hdrs = [(''Authorization'', ''Token '' @ fstr token),
                  (''Content-Type'', ''application/json'')];
          ps = [];
          ps = set_if_truthy ps ''page'' (map_option JInt page);
          ps = set_if_truthy ps ''page_size'' (map_option JInt page_size);
          ps = set_if_truthy ps ''q'' (map_option JStr q);
          ps = set_if_truthy ps ''name'' (map_option JStr name);
          ps = set_if_truthy ps ''uuid'' (map_option JStr uuid);
          ps = set_if_truthy ps ''created_at__gte'' (map_option JStr created_at_gte);
          ps = set_if_truthy ps ''created_at__lte'' (map_option JStr created_at_lte);
          ps = set_if_truthy ps ''scan_product'' (map_option JStr scan_product);
          ps = set_if_truthy ps ''scan_status'' (map_option JStr scan_status);
          ps = set_if_truthy ps ''user_email'' (map_option JStr user_email);
          ps = set_if_truthy ps ''view_types'' (map_option JStr view_types);
          ps = set_if_truthy ps ''diseases'' (map_option JStr diseases);
          ps = set_if_truthy ps ''measurements'' (map_option JStr measurements)
      in \<lparr>http_method = GET, url = fstr api_url @ ''/api/v2/all_studies/'', headers = hdrs,
          params = Some ps, json_body = None, files = None, follow_redirects = False\<rparr>)"

definition get_study_with_measurements_request :: "world \<Rightarrow> string \<Rightarrow> request" where
  "get_study_with_measurements_request w uuid =
     (let api_url = getenv w ''API'';
          token = getenv w ''API_TOKEN'';
          hdrs = [(''Authorization'', ''Token '' @ fstr token),
                  (''Content-Type'', ''application/json'')]
      in \<lparr>http_method = GET, url = fstr api_url @ ''/api/v2/all_studies/'' @ uuid @ ''/'',
          headers = hdrs, params = None, json_body = None, files = None,
          follow_redirects = False\<rparr>)"

definition get_study_metrics_request :: "world \<Rightarrow> request" where
  "get_study_metrics_request w =
     (let api_url = getenv w ''API'';
          token = getenv w ''API_TOKEN'';
          hdrs = [(''Authorization'', ''Token '' @ fstr token),
                  (''Content-Type'', ''application/json'')]
      in \<lparr>http_method = GET, url = fstr api_url @ ''/api/v2/all_studies/metrics/'',
          headers = hdrs, params = None, json_body = None, files = None,
          follow_redirects = False\<rparr>)"

definition get_filter_metadata_request :: "world \<Rightarrow> request" where
  "get_filter_metadata_request w =
     (let api_url = getenv w ''API'';
          token = getenv w ''API_TOKEN'';
          hdrs = [(''Authorization'', ''Token '' @ fstr token),
                  (''Content-Type'', ''application/json'')]
      in \<lparr>http_method = GET,
          url = fstr api_url @ ''/api/v2/all_studies/filters/metadata/'',
          headers = hdrs, params = None, json_body = None, files = None,
          follow_redirects = False\<rparr>)"

section \<open>flows/create\_scan\_and\_retrieve\_inference\_results\_with\_webhooks.py\<close>

text \<open>Sequencing of statements that may raise.\<close>

definition and_then :: "exn + 'a \<Rightarrow> ('a \<Rightarrow> exn + 'b) \<Rightarrow> exn + 'b" where
  "and_then r f = (case r of Inl e \<Rightarrow> Inl e | Inr x \<Rightarrow> f x)"

text \<open>
  \<^verbatim>\<open>f"{x}"\<close> of a value taken from a JSON document. How Python prints a float, a list or a
  dictionary is left to the parameter \<open>fmt\<close>.
\<close>

definition format_value :: "(json \<Rightarrow> string) \<Rightarrow> json \<Rightarrow> string" where
  "format_value fmt v =
     (case v of
        JStr s \<Rightarrow> s
      | JInt i \<Rightarrow> str_int i
      | JBool b \<Rightarrow> (if b then ''True'' else ''False'')
      | JNull \<Rightarrow> ''None''
      | _ \<Rightarrow> fmt v)"

text \<open>
  \<^verbatim>\<open>if report_info.get(k): print(f"... {len(report_info[k])} items")\<close>, for the exceptions
  it can raise.
\<close>

definition print_item_count :: "json \<Rightarrow> string \<Rightarrow> exn + unit" where
  "print_item_count report_info k =
     and_then (dict_get report_info k JNull) (\<lambda>v.
       if truthy v then
         and_then (subscript report_info k) (\<lambda>x. and_then (py_len x) (\<lambda>n. Inr ()))
       else Inr ())"

text \<open>
  The prints between the report fetch and \<^verbatim>\<open>display_report_details\<close>: they read
  \<^verbatim>\<open>report['uuid']\<close>, \<^verbatim>\<open>report['version']\<close>, \<^verbatim>\<open>report['study']['name']\<close> and the three
  item counts of the notification's own report summary.
\<close>

definition print_report_summary :: "json \<Rightarrow> json \<Rightarrow> exn + unit" where
  "print_report_summary report report_info =
     and_then (subscript report ''uuid'') (\<lambda>_.
     and_then (subscript report ''version'') (\<lambda>_.
     and_then (subscript report ''study'') (\<lambda>study.
     and_then (subscript study ''name'') (\<lambda>_.
     and_then (print_item_count report_info ''measurements'') (\<lambda>_.
     and_then (print_item_count report_info ''pathologies'') (\<lambda>_.
     print_item_count report_info ''conclusions''))))))"

text \<open>
  The branch \<^verbatim>\<open>if status == 'COMPLETED'\<close>. \<^verbatim>\<open>display_report_details\<close> only prints; the
  exception it may raise on a report is the parameter \<open>display\<close>.
\<close>

definition completed_branch ::
  "(json \<Rightarrow> string) \<Rightarrow> (json \<Rightarrow> exn option) \<Rightarrow> json \<Rightarrow> json \<Rightarrow> world \<Rightarrow> (exn + json) \<times> world"
  where
  "completed_branch fmt display payload scan_uuid w =
     (case dict_get payload ''report'' (JObj []) of
        Inl e \<Rightarrow> (Inl e, w)
      | Inr report_info \<Rightarrow>
          (case dict_get report_info ''uuid'' JNull of
             Inl e \<Rightarrow> (Inl e, w)
           | Inr report_uuid \<Rightarrow>
               if truthy report_uuid then
                 (case get_report (format_value fmt report_uuid) w of
                    (Inl e, w1) \<Rightarrow> (Inl e, w1)
                  | (Inr report, w1) \<Rightarrow>
                      (case print_report_summary report report_info of
                         Inl e \<Rightarrow> (Inl e, w1)
                       | Inr _ \<Rightarrow>
                           (case display report of
                              Some e \<Rightarrow> (Inl e, w1)
                            | None \<Rightarrow>
                                (Inr (JObj [(''scan_uuid'', scan_uuid),
                                            (''report_uuid'', report_uuid),
                                            (''status'', JStr ''SUCCESS'')]), w1))))
               else (Inr (JObj [(''scan_uuid'', scan_uuid),
                                (''status'', JStr ''NO_REPORT'')]), w)))"

text \<open>The branch \<^verbatim>\<open>elif status == 'FAILED'\<close>.\<close>

definition failed_branch ::
  "(json \<Rightarrow> string) \<Rightarrow> json \<Rightarrow> world \<Rightarrow> (exn + json) \<times> world" where
  "failed_branch fmt scan_uuid w =
     (case get_scan (format_value fmt scan_uuid) w of
        (Inl e, w1) \<Rightarrow> (Inl e, w1)
      | (Inr scan_details, w1) \<Rightarrow>
          (case dict_get scan_details ''state'' JNull of
             Inl e \<Rightarrow> (Inl e, w1)
           | Inr state \<Rightarrow>
               (Inr (JObj [(''scan_uuid'', scan_uuid), (''status'', JStr ''FAILED'')]), w1)))"

text \<open>
  \<^verbatim>\<open>handle_webhook_notification\<close>. The parameter \<open>loads\<close> is
  \<^verbatim>\<open>json.loads(webhook_payload.decode('utf-8'))\<close>: a parsed document, or the exception the
  decoding or the parsing raises. Both \<^verbatim>\<open>except\<close> clauses print and re-raise, so every
  exception leaves the function as it arose.
\<close>

definition handle_webhook_notification ::
  "(string \<Rightarrow> exn + json) \<Rightarrow> (json \<Rightarrow> string) \<Rightarrow> (json \<Rightarrow> exn option) \<Rightarrow> string \<Rightarrow> world \<Rightarrow>
   (exn + json) \<times> world" where
  "handle_webhook_notification loads fmt display webhook_payload w =
     (case loads webhook_payload of
        Inl e \<Rightarrow> (Inl e, w)
      | Inr payload \<Rightarrow>
          (case subscript payload ''scan_id'' of
             Inl e \<Rightarrow> (Inl e, w)
           | Inr scan_uuid \<Rightarrow>
               (case subscript payload ''status'' of
                  Inl e \<Rightarrow> (Inl e, w)
                | Inr status \<Rightarrow>
                    if status = JStr ''COMPLETED'' then
                      completed_branch fmt display payload scan_uuid w
                    else if status = JStr ''FAILED'' then failed_branch fmt scan_uuid w
                    else (Inr (JObj [(''scan_uuid'', scan_uuid), (''status'', status)]), w))))"

section \<open>The completion fraction\<close>

text \<open>Python's \<^verbatim>\<open>a / b\<close> on numbers.\<close>

definition py_truediv :: "real \<Rightarrow> real \<Rightarrow> exn + real" where
  "py_truediv a b = (if b = 0 then Inl ZeroDivisionError else Inr (a / b))"

text \<open>
  Modelled from the spec: the derivation of the completion fraction from the progress
  counters of a scan. The repository has no function that computes it; the spec leaves it to
  the callers of \<^verbatim>\<open>get_scan_progress\<close>: the fraction is
  \<^verbatim>\<open>number_of_dicoms_scanned / number_of_available_dicoms\<close>, and 0 when the denominator
  is 0.
\<close>

definition progress_fraction :: "nat \<Rightarrow> nat \<Rightarrow> exn + real" where
  "progress_fraction number_of_dicoms_scanned number_of_available_dicoms =
     (if number_of_available_dicoms = 0 then Inr 0
      else py_truediv (real number_of_dicoms_scanned) (real number_of_available_dicoms))"

text \<open>
  The only place of the source that shows the derivation is the example in the docstring of
  \<^verbatim>\<open>get_scan_progress\<close>, which computes a percentage under the guard
  \<^verbatim>\<open>number_of_available_dicoms > 0\<close> and prints nothing otherwise (\<open>None\<close>).
\<close>

definition docstring_percent :: "nat \<Rightarrow> nat \<Rightarrow> (exn + real) option" where
  "docstring_percent number_of_dicoms_scanned number_of_available_dicoms =
     (if number_of_available_dicoms > 0 then
        Some (and_then (py_truediv (real number_of_dicoms_scanned)
                                   (real number_of_available_dicoms))
                       (\<lambda>f. Inr (f * 100)))
      else None)"

section \<open>Vocabulary of the statements\<close>

text \<open>What one call of \<^verbatim>\<open>get_scan\<close> returns or raises, given the reply to its request.\<close>

definition fetched :: "reply \<Rightarrow> exn + json" where
  "fetched r = and_then (raise_for_status r) (\<lambda>_. response_json r)"

text \<open>The status the polling loop reads from a reply, if the fetch gives it one.\<close>

definition scan_status :: "reply \<Rightarrow> json option" where
  "scan_status r =
     (case fetched r of
        Inl e \<Rightarrow> None
      | Inr scan \<Rightarrow> (case subscript scan ''status'' of Inl e \<Rightarrow> None | Inr st \<Rightarrow> Some st))"









definition timeout_message :: "string \<Rightarrow> int \<Rightarrow> string" where
  "timeout_message scan_uuid timeout =
     ''Scan '' @ scan_uuid @ '' did not complete within '' @ str_int timeout @ '' seconds''"

text \<open>The \<^verbatim>\<open>Authorization\<close> header of a request.\<close>

definition authorization :: "request \<Rightarrow> string option" where
  "authorization req = map_of (headers req) ''Authorization''"

text \<open>A field of a JSON object, \<open>None\<close> when the value is no object or lacks the key.\<close>

fun field :: "json \<Rightarrow> string \<Rightarrow> json option" where
  "field (JObj kvs) k = map_of kvs k"
| "field _ k = None"

text \<open>
  The remote service's side of scan creation, as the docstring of \<^verbatim>\<open>create_scan\<close> and the
  spec describe it: the reply to the creation request is a success carrying a Scan of the
  submitted study, with the submitted product, ECHOMEASURE when the request names none.
\<close>

definition scan_created :: "request \<Rightarrow> reply \<Rightarrow> bool" where
  "scan_created req r =
     (case (json_body req, r) of
        (Some body, Response code (Some scan)) \<Rightarrow>
          200 \<le> code \<and> code \<le> 299 \<and> field body ''study'' \<noteq> None \<and>
          field scan ''study'' = field body ''study'' \<and>
          field scan ''product'' =
            Some (case field body ''product'' of None \<Rightarrow> JStr ''ECHOMEASURE'' | Some p \<Rightarrow> p)
      | _ \<Rightarrow> False)"

section \<open>Example worlds\<close>

definition example_env :: "string \<Rightarrow> string option" where
  "example_env name =
     (if name = ''API'' then Some ''https://api.example.com''
      else if name = ''API_TOKEN'' then Some ''test-token''
      else None)"

definition scan_doc :: "string \<Rightarrow> json" where
  "scan_doc st =
     JObj [(''uuid'', JStr ''scan-1''), (''status'', JStr st), (''study'', JStr ''study-1''),
           (''product'', JStr ''ECHOMEASURE''), (''report'', JNull)]"



definition pending_remote :: "nat \<Rightarrow> request \<Rightarrow> reply" where
  "pending_remote n req = Response 200 (Some (scan_doc ''PENDING''))"

definition constant_latency :: "real \<Rightarrow> nat \<Rightarrow> real" where
  "constant_latency d n = d"


definition pending_world :: "real \<Rightarrow> world" where
  "pending_world d =
     \<lparr>environ = example_env, remote = pending_remote, latency = constant_latency d,
      clock = 0, trace = []\<rparr>"


text \<open>A remote that creates scans as the service does, and a world around it.\<close>

definition creating_remote :: "nat \<Rightarrow> request \<Rightarrow> reply" where
  "creating_remote n req =
     (case json_body req of
        None \<Rightarrow> Response 400 None
      | Some body \<Rightarrow>
          Response 201 (Some (JObj
            [(''uuid'', JStr ''scan-1''), (''status'', JStr ''PENDING''),
             (''study'', case field body ''study'' of None \<Rightarrow> JNull | Some s \<Rightarrow> s),
             (''product'',
                case field body ''product'' of None \<Rightarrow> JStr ''ECHOMEASURE'' | Some p \<Rightarrow> p)])))"

definition creating_world :: world where
  "creating_world =
     \<lparr>environ = example_env, remote = creating_remote, latency = constant_latency 0,
      clock = 0, trace = []\<rparr>"

definition created_doc :: "string \<Rightarrow> json" where
  "created_doc product =
     JObj [(''uuid'', JStr ''scan-1''), (''status'', JStr ''PENDING''),
           (''study'', JStr ''study-1''), (''product'', JStr product)]"




section \<open>One request and one sleep\<close>

lemma get_scan_request_environ:
  "environ w' = environ w \<Longrightarrow> get_scan_request w' u = get_scan_request w u"
  by (simp add: get_scan_request_def getenv_def)

lemma environ_request_sent [simp]: "environ (request_sent req w) = environ w"
  by (simp add: request_sent_def)

lemma trace_request_sent [simp]: "trace (request_sent req w) = trace w @ [Sent req]"
  by (simp add: request_sent_def)

lemma clock_request_sent [simp]: "clock (request_sent req w) = clock w + latency w 0"
  by (simp add: request_sent_def)

lemma remote_request_sent [simp]: "remote (request_sent req w) n = remote w (Suc n)"
  by (simp add: request_sent_def)

lemma latency_request_sent [simp]: "latency (request_sent req w) = (\<lambda>n. latency w (Suc n))"
  by (simp add: request_sent_def)

lemma environ_slept [simp]: "environ (slept p w) = environ w"
  by (simp add: slept_def)

lemma trace_slept [simp]: "trace (slept p w) = trace w @ [Slept p]"
  by (simp add: slept_def)

lemma clock_slept [simp]: "clock (slept p w) = clock w + real_of_int p"
  by (simp add: slept_def)

lemma remote_slept [simp]: "remote (slept p w) = remote w"
  by (simp add: slept_def)

lemma latency_slept [simp]: "latency (slept p w) = latency w"
  by (simp add: slept_def)

lemma send_for_json_eq:
  "send_for_json req w = (fetched (remote w 0 req), request_sent req w)"
  by (cases "remote w 0 req")
     (auto simp add: send_for_json_def httpx_request_def fetched_def and_then_def Let_def
           split: sum.splits option.splits)

lemma fetched_success:
  "200 \<le> code \<Longrightarrow> code \<le> 299 \<Longrightarrow> fetched (Response code (Some j)) = Inr j"
  by (simp add: fetched_def and_then_def)

lemma fetched_not_timeout: "fetched r \<noteq> Inl (TimeoutError m)"
  by (cases r rule: response_json.cases)
     (auto simp add: fetched_def and_then_def split: sum.splits if_splits)

lemma subscript_not_timeout: "subscript j k \<noteq> Inl (TimeoutError m)"
  by (cases j) (auto split: option.splits)

lemma get_scan_eq:
  "get_scan u w = (fetched (remote w 0 (get_scan_request w u)), request_sent (get_scan_request w u) w)"
  by (simp add: get_scan_def send_for_json_eq)

lemma get_scan_request_parts:
  "http_method (get_scan_request w u) = GET"
  "url (get_scan_request w u) = fstr (getenv w ''API'') @ ''/api/v2/scans/'' @ u @ ''/''"
  "map_of (headers (get_scan_request w u)) ''Authorization''
     = Some (''Bearer '' @ fstr (getenv w ''API_TOKEN''))"
  by (simp_all add: get_scan_request_def Let_def)

lemma create_scan_eq:
  "create_scan s pr w =
     (fetched (remote w 0 (create_scan_request w s pr)), request_sent (create_scan_request w s pr) w)"
  by (simp add: create_scan_def send_for_json_eq)

lemma create_scan_body:
  "json_body (create_scan_request w s pr) =
     Some (JObj (case pr of
                   None \<Rightarrow> [(''study'', JStr s)]
                 | Some x \<Rightarrow> if x = [] then [(''study'', JStr s)]
                             else [(''study'', JStr s), (''product'', JStr x)]))"
  by (cases pr) (simp_all add: create_scan_request_def set_if_truthy_def Let_def)




section \<open>The polling loop\<close>






text \<open>
  What holds of every run that leaves the loop, by induction over the loop's unfoldings.
\<close>

lemma poll_loop_sound:
  assumes "poll_loop u T p start w = Some y"
  shows "(\<exists>evs. trace (snd y) = trace w @ Sent (get_scan_request w u) # evs) \<and>
         (\<forall>m. fst y = Inl (TimeoutError m) \<longrightarrow> m = timeout_message u T)"
proof (rule poll_loop.raw_induct
    [where P = "\<lambda>u T p start w y.
        (\<exists>evs. trace (snd y) = trace w @ Sent (get_scan_request w u) # evs) \<and>
        (\<forall>m. fst y = Inl (TimeoutError m) \<longrightarrow> m = timeout_message u T)", OF _ assms],
    goal_cases)
  case (1 f u T p start w y)
  let ?req = "get_scan_request w u"
  let ?w2 = "slept p (request_sent ?req w)"
  have req2: "get_scan_request ?w2 u = ?req"
    by (rule get_scan_request_environ) simp
  show ?case
  proof (cases "f u T p start ?w2 = Some y")
    case True
    from 1(1) [OF True] show ?thesis by (auto simp add: req2)
  next
    case False
    with 1(2) show ?thesis
      by (auto simp add: get_scan_eq time_sleep_def timeout_message_def fetched_not_timeout
            subscript_not_timeout split: sum.splits if_splits)
  qed
qed








section \<open>The fetch at which the timeout fires\<close>

lemma constant_latency_shift [simp]: "(\<lambda>n. constant_latency d (Suc n)) = constant_latency d"
  by (simp add: constant_latency_def fun_eq_iff)







section \<open>The example worlds\<close>


lemma pending_world_simps:
  "environ (pending_world d) = example_env" "remote (pending_world d) = pending_remote"
  "latency (pending_world d) = constant_latency d" "clock (pending_world d) = 0"
  "trace (pending_world d) = []"
  by (simp_all add: pending_world_def)

lemma creating_world_simps:
  "environ creating_world = example_env" "remote creating_world = creating_remote"
  "trace creating_world = []"
  by (simp_all add: creating_world_def)






lemma creating_remote_creates:
  "creating_remote n (create_scan_request w ''study-1'' pr)
     = Response 201 (Some (created_doc
         (case pr of None \<Rightarrow> ''ECHOMEASURE'' | Some x \<Rightarrow> if x = [] then ''ECHOMEASURE'' else x)))"
  by (cases pr) (simp_all add: creating_remote_def create_scan_body created_doc_def)

section \<open>Claims about the polling loop\<close>










section \<open>Claims about scan creation and the progress read\<close>

text \<open>
  C4. For every study id and optional product, \<^verbatim>\<open>create_scan\<close> sends one POST request to
  the path /api/v2/scans/ whose JSON body maps "study" to the study id and has the key
  "product" only when a product is supplied, and it returns the document of the remote's
  successful reply. When the remote creates the scan as the service does (see
  \<open>scan_created\<close>) and the product is not the empty string, the returned Scan has the
  study id as its study and the supplied product as its product, ECHOMEASURE when the
  product is omitted.
\<close>

theorem create_scan_posts_study_and_product:
  "trace (snd (create_scan study_uuid product w))
     = trace w @ [Sent (create_scan_request w study_uuid product)] \<and>
   http_method (create_scan_request w study_uuid product) = POST \<and>
   url (create_scan_request w study_uuid product) = fstr (getenv w ''API'') @ ''/api/v2/scans/'' \<and>
   (\<exists>body. json_body (create_scan_request w study_uuid product) = Some (JObj body) \<and>
      map_of body ''study'' = Some (JStr study_uuid) \<and>
      (map_of body ''product'' \<noteq> None \<longrightarrow> product \<noteq> None) \<and>
      (\<forall>x. product = Some x \<and> x \<noteq> [] \<longrightarrow> map_of body ''product'' = Some (JStr x))) \<and>
   (\<forall>code scan. remote w 0 (create_scan_request w study_uuid product) = Response code (Some scan)
      \<and> 200 \<le> code \<and> code \<le> 299 \<longrightarrow> fst (create_scan study_uuid product w) = Inr scan) \<and>
   (scan_created (create_scan_request w study_uuid product)
        (remote w 0 (create_scan_request w study_uuid product)) \<and> product \<noteq> Some [] \<longrightarrow>
      (\<exists>scan. fst (create_scan study_uuid product w) = Inr scan \<and>
         field scan ''study'' = Some (JStr study_uuid) \<and>
         field scan ''product''
           = Some (JStr (case product of None \<Rightarrow> ''ECHOMEASURE'' | Some x \<Rightarrow> x))))"
proof (intro conjI)
  let ?req = "create_scan_request w study_uuid product"
  show "trace (snd (create_scan study_uuid product w)) = trace w @ [Sent ?req]"
    by (simp add: create_scan_eq)
  show "http_method ?req = POST"
    by (simp add: create_scan_request_def Let_def)
  show "url ?req = fstr (getenv w ''API'') @ ''/api/v2/scans/''"
    by (simp add: create_scan_request_def Let_def)
  show "\<exists>body. json_body ?req = Some (JObj body) \<and>
      map_of body ''study'' = Some (JStr study_uuid) \<and>
      (map_of body ''product'' \<noteq> None \<longrightarrow> product \<noteq> None) \<and>
      (\<forall>x. product = Some x \<and> x \<noteq> [] \<longrightarrow> map_of body ''product'' = Some (JStr x))"
    by (cases product) (simp_all add: create_scan_body)
  show "\<forall>code scan. remote w 0 ?req = Response code (Some scan)
      \<and> 200 \<le> code \<and> code \<le> 299 \<longrightarrow> fst (create_scan study_uuid product w) = Inr scan"
    by (simp add: create_scan_eq fetched_success)
  show "scan_created ?req (remote w 0 ?req) \<and> product \<noteq> Some [] \<longrightarrow>
      (\<exists>scan. fst (create_scan study_uuid product w) = Inr scan \<and>
         field scan ''study'' = Some (JStr study_uuid) \<and>
         field scan ''product''
           = Some (JStr (case product of None \<Rightarrow> ''ECHOMEASURE'' | Some x \<Rightarrow> x)))"
  proof
    assume a: "scan_created ?req (remote w 0 ?req) \<and> product \<noteq> Some []"
    then obtain code scan where r: "remote w 0 ?req = Response code (Some scan)"
      and c: "200 \<le> code" "code \<le> 299"
      and f: "field scan ''study'' = field (the (json_body ?req)) ''study''"
        "field scan ''product'' = Some (case field (the (json_body ?req)) ''product'' of
            None \<Rightarrow> JStr ''ECHOMEASURE'' | Some p \<Rightarrow> p)"
      by (auto simp add: scan_created_def create_scan_body split: reply.splits option.splits)
    have "fst (create_scan study_uuid product w) = Inr scan"
      by (simp add: create_scan_eq r fetched_success c)
    moreover have "field scan ''study'' = Some (JStr study_uuid)"
      using f(1) by (cases product) (simp_all add: create_scan_body)
    moreover have "field scan ''product''
           = Some (JStr (case product of None \<Rightarrow> ''ECHOMEASURE'' | Some x \<Rightarrow> x))"
      using f(2) a by (cases product) (simp_all add: create_scan_body)
    ultimately show "\<exists>scan. fst (create_scan study_uuid product w) = Inr scan \<and>
         field scan ''study'' = Some (JStr study_uuid) \<and>
         field scan ''product''
           = Some (JStr (case product of None \<Rightarrow> ''ECHOMEASURE'' | Some x \<Rightarrow> x))"
      by blast
  qed
qed

theorem create_scan_posts_study_and_product_witness:
  "fst (create_scan ''study-1'' None creating_world) = Inr (created_doc ''ECHOMEASURE'') \<and>
   fst (create_scan ''study-1'' (Some ''CARDIOVISION'') creating_world)
     = Inr (created_doc ''CARDIOVISION'') \<and>
   field (created_doc ''CARDIOVISION'') ''study'' = Some (JStr ''study-1'') \<and>
   field (created_doc ''CARDIOVISION'') ''product'' = Some (JStr ''CARDIOVISION'') \<and>
   field (created_doc ''ECHOMEASURE'') ''product'' = Some (JStr ''ECHOMEASURE'')"
proof -
  have c: "scan_created (create_scan_request creating_world ''study-1'' pr)
             (remote creating_world 0 (create_scan_request creating_world ''study-1'' pr))" for pr
    by (cases pr)
       (simp_all add: scan_created_def creating_world_simps creating_remote_creates
          create_scan_body created_doc_def)
  from create_scan_posts_study_and_product [of "''study-1''" None creating_world]
    create_scan_posts_study_and_product [of "''study-1''" "Some ''CARDIOVISION''" creating_world]
    c [of None] c [of "Some ''CARDIOVISION''"]
  show ?thesis
    by (simp add: creating_world_simps creating_remote_creates created_doc_def)
qed

text \<open>
  C9. \<^verbatim>\<open>create_scan\<close> adds the key "product" only when the product is truthy. Called
  with the empty string as product, it sends one POST request whose body is
  \<^verbatim>\<open>{"study": study_uuid}\<close>, with no key "product": the very request it sends when the
  product is omitted, and all that follows is the same. Called with a product that is not
  empty, the body it sends has the key "product" with that value.
\<close>

theorem create_scan_empty_product_omitted:
  "trace (snd (create_scan study_uuid (Some []) w))
     = trace w @ [Sent \<lparr>http_method = POST, url = fstr (getenv w ''API'') @ ''/api/v2/scans/'',
                       headers = [(''Authorization'', ''Bearer '' @ fstr (getenv w ''API_TOKEN'')),
                                  (''Content-Type'', ''application/json'')],
                       params = None, json_body = Some (JObj [(''study'', JStr study_uuid)]),
                       files = None, follow_redirects = False\<rparr>] \<and>
   trace (snd (create_scan study_uuid None w))
     = trace w @ [Sent \<lparr>http_method = POST, url = fstr (getenv w ''API'') @ ''/api/v2/scans/'',
                       headers = [(''Authorization'', ''Bearer '' @ fstr (getenv w ''API_TOKEN'')),
                                  (''Content-Type'', ''application/json'')],
                       params = None, json_body = Some (JObj [(''study'', JStr study_uuid)]),
                       files = None, follow_redirects = False\<rparr>] \<and>
   (product \<noteq> [] \<longrightarrow>
      trace (snd (create_scan study_uuid (Some product) w))
        = trace w @ [Sent \<lparr>http_method = POST,
                          url = fstr (getenv w ''API'') @ ''/api/v2/scans/'',
                          headers = [(''Authorization'', ''Bearer '' @ fstr (getenv w ''API_TOKEN'')),
                                     (''Content-Type'', ''application/json'')],
                          params = None,
                          json_body = Some (JObj [(''study'', JStr study_uuid),
                                                  (''product'', JStr product)]),
                          files = None, follow_redirects = False\<rparr>]) \<and>
   json_body (create_scan_request w study_uuid (Some []))
     = Some (JObj [(''study'', JStr study_uuid)]) \<and>
   create_scan_request w study_uuid (Some []) = create_scan_request w study_uuid None \<and>
   create_scan study_uuid (Some []) w = create_scan study_uuid None w"
  by (simp add: create_scan_eq create_scan_request_def set_if_truthy_def Let_def create_scan_def)

text \<open>
  With the environment of the repository's tests: the request with product CARDIOVISION
  and the request with the empty product.
\<close>

theorem create_scan_empty_product_omitted_witness:
  "trace (snd (create_scan ''study-1'' (Some ''CARDIOVISION'') creating_world))
     = [Sent \<lparr>http_method = POST, url = ''https://api.example.com/api/v2/scans/'',
             headers = [(''Authorization'', ''Bearer test-token''),
                        (''Content-Type'', ''application/json'')],
             params = None,
             json_body = Some (JObj [(''study'', JStr ''study-1''),
                                     (''product'', JStr ''CARDIOVISION'')]),
             files = None, follow_redirects = False\<rparr>] \<and>
   trace (snd (create_scan ''study-1'' (Some []) creating_world))
     = [Sent \<lparr>http_method = POST, url = ''https://api.example.com/api/v2/scans/'',
             headers = [(''Authorization'', ''Bearer test-token''),
                        (''Content-Type'', ''application/json'')],
             params = None, json_body = Some (JObj [(''study'', JStr ''study-1'')]),
             files = None, follow_redirects = False\<rparr>]"
proof -
  have ne: "''CARDIOVISION'' \<noteq> []" by simp
  from create_scan_empty_product_omitted
    [where w = creating_world and study_uuid = "''study-1''" and product = "''CARDIOVISION''"] ne
  show ?thesis
    by (simp add: creating_world_simps getenv_def example_env_def fstr_def)
qed

text \<open>
  C5. \<^verbatim>\<open>get_scan_progress\<close> is \<^verbatim>\<open>get_scan\<close>: the same result and the same effect, a
  single GET of /api/v2/scans/\{uuid\}/ with the Bearer credential. When the remote gives the
  next request the reply it gave this one, a second call returns the identical result.
\<close>

theorem get_scan_progress_is_get_scan:
  "get_scan_progress scan_uuid w = get_scan scan_uuid w \<and>
   trace (snd (get_scan_progress scan_uuid w)) = trace w @ [Sent (get_scan_request w scan_uuid)] \<and>
   http_method (get_scan_request w scan_uuid) = GET \<and>
   url (get_scan_request w scan_uuid)
     = fstr (getenv w ''API'') @ ''/api/v2/scans/'' @ scan_uuid @ ''/'' \<and>
   map_of (headers (get_scan_request w scan_uuid)) ''Authorization''
     = Some (''Bearer '' @ fstr (getenv w ''API_TOKEN'')) \<and>
   (remote w (Suc 0) (get_scan_request w scan_uuid) = remote w 0 (get_scan_request w scan_uuid)
      \<longrightarrow> fst (get_scan_progress scan_uuid (snd (get_scan_progress scan_uuid w)))
            = fst (get_scan_progress scan_uuid w))"
proof -
  have "get_scan_request (request_sent (get_scan_request w scan_uuid) w) scan_uuid
          = get_scan_request w scan_uuid"
    by (rule get_scan_request_environ) simp
  then show ?thesis
    by (simp add: get_scan_progress_def get_scan_eq get_scan_request_parts)
qed

theorem get_scan_progress_is_get_scan_witness:
  "fst (get_scan_progress ''scan-1'' (snd (get_scan_progress ''scan-1'' (pending_world 0))))
     = fst (get_scan_progress ''scan-1'' (pending_world 0)) \<and>
   fst (get_scan_progress ''scan-1'' (pending_world 0)) = Inr (scan_doc ''PENDING'')"
proof -
  have same: "remote (pending_world 0) (Suc 0) (get_scan_request (pending_world 0) ''scan-1'')
          = remote (pending_world 0) 0 (get_scan_request (pending_world 0) ''scan-1'')"
    by (simp add: pending_world_simps pending_remote_def)
  note inst = get_scan_progress_is_get_scan [of "''scan-1''" "pending_world 0"]
  from inst same have r:
    "fst (get_scan_progress ''scan-1'' (snd (get_scan_progress ''scan-1'' (pending_world 0))))
       = fst (get_scan_progress ''scan-1'' (pending_world 0))" by blast
  from inst have e: "get_scan_progress ''scan-1'' (pending_world 0)
       = get_scan ''scan-1'' (pending_world 0)" by blast
  have v: "fst (get_scan_progress ''scan-1'' (pending_world 0)) = Inr (scan_doc ''PENDING'')"
    unfolding e by (simp add: get_scan_eq pending_world_simps pending_remote_def fetched_success)
  show ?thesis
  proof (intro conjI)
    show "fst (get_scan_progress ''scan-1''
                 (snd (get_scan_progress ''scan-1'' (pending_world 0))))
            = fst (get_scan_progress ''scan-1'' (pending_world 0))" by (rule r)
    show "fst (get_scan_progress ''scan-1'' (pending_world 0)) = Inr (scan_doc ''PENDING'')"
      by (rule v)
  qed
qed

section \<open>Claims about the webhook receiver\<close>





text \<open>
  A report that is present but \<^verbatim>\<open>null\<close> is not an absent one: \<^verbatim>\<open>payload.get('report', {})\<close>
  returns it, and the call of its \<^verbatim>\<open>get\<close> raises.
\<close>

lemma completed_with_null_report:
  "loads webhook_payload = Inr (JObj kvs) \<Longrightarrow> map_of kvs ''scan_id'' = Some scan_id \<Longrightarrow>
   map_of kvs ''status'' = Some (JStr ''COMPLETED'') \<Longrightarrow> map_of kvs ''report'' = Some JNull \<Longrightarrow>
   handle_webhook_notification loads fmt display webhook_payload w = (Inl AttributeError, w)"
  by (simp add: handle_webhook_notification_def completed_branch_def)

section \<open>Claim about the completion fraction\<close>

text \<open>
  C6. The derivation of the completion fraction from the progress counters is total: with
  \<^verbatim>\<open>number_of_available_dicoms = 0\<close> the fraction is 0, and for all counters it is a value,
  never a division-by-zero error. Where the example in the docstring of
  \<^verbatim>\<open>get_scan_progress\<close> computes a percentage (a positive denominator) it is 100 times
  this fraction; at denominator 0 the example computes nothing and raises nothing.
\<close>

theorem progress_fraction_total:
  "progress_fraction scanned 0 = Inr 0 \<and>
   (\<exists>f. progress_fraction scanned available = Inr f) \<and>
   (\<forall>e. progress_fraction scanned available \<noteq> Inl e) \<and>
   (0 < available \<longrightarrow>
      progress_fraction scanned available = Inr (real scanned / real available) \<and>
      docstring_percent scanned available = Some (Inr (real scanned / real available * 100))) \<and>
   docstring_percent scanned 0 = None"
  by (simp add: progress_fraction_def docstring_percent_def py_truediv_def and_then_def)

theorem progress_fraction_total_witness:
  "progress_fraction 5 10 = Inr (1 / 2) \<and> docstring_percent 5 10 = Some (Inr 50) \<and>
   progress_fraction 0 0 = Inr 0"
  using progress_fraction_total [of 5 10] progress_fraction_total [of 0 0] by simp

section \<open>Claim about the authorization header\<close>

lemmas request_defs =
  create_scan_request_def get_scans_request_def get_scan_request_def delete_scan_request_def
  get_studies_request_def create_study_request_def get_study_request_def
  update_study_request_def delete_study_request_def
  upload_dicom_request_def get_dicoms_request_def get_dicom_request_def
  download_dicom_file_request_def delete_dicom_request_def idempotent_dicom_upload_request_def
  create_webhook_request_def get_webhooks_request_def get_webhook_request_def
  update_webhook_request_def delete_webhook_request_def
  get_reports_request_def get_report_request_def get_report_html_request_def
  get_echogpt_responses_request_def get_echogpt_response_request_def
  create_user_measurement_request_def get_api_version_request_def
  get_all_studies_with_measurements_request_def get_study_with_measurements_request_def
  get_study_metrics_request_def get_filter_metadata_request_def

text \<open>
  C8. Every request of the Study, Dicom and Scan functions carries
  \<^verbatim>\<open>Authorization: Bearer <token>\<close>, and every request of the Reports, Webhooks and
  all-studies functions (measurements and version included) carries
  \<^verbatim>\<open>Authorization: Token <token>\<close>, where \<^verbatim>\<open><token>\<close> is the f-string rendering of
  \<^verbatim>\<open>os.getenv("API_TOKEN")\<close>: the value of API\_TOKEN when it is set.
\<close>

theorem authorization_scheme_per_family:
  "authorization (create_scan_request w study_uuid product) = Some (''Bearer '' @ fstr (getenv w ''API_TOKEN'')) \<and>
   authorization (get_scans_request w study_filter page page_size) = Some (''Bearer '' @ fstr (getenv w ''API_TOKEN'')) \<and>
   authorization (get_scan_request w uuid) = Some (''Bearer '' @ fstr (getenv w ''API_TOKEN'')) \<and>
   authorization (delete_scan_request w uuid) = Some (''Bearer '' @ fstr (getenv w ''API_TOKEN'')) \<and>
   authorization (get_studies_request w page page_size name uuid_filter) = Some (''Bearer '' @ fstr (getenv w ''API_TOKEN'')) \<and>
   authorization (create_study_request w age name height weight sex) = Some (''Bearer '' @ fstr (getenv w ''API_TOKEN'')) \<and>
   authorization (get_study_request w uuid) = Some (''Bearer '' @ fstr (getenv w ''API_TOKEN'')) \<and>
   authorization (update_study_request w uuid updates) = Some (''Bearer '' @ fstr (getenv w ''API_TOKEN'')) \<and>
   authorization (delete_study_request w uuid) = Some (''Bearer '' @ fstr (getenv w ''API_TOKEN'')) \<and>
   authorization (upload_dicom_request w study_uuid file_name content) = Some (''Bearer '' @ fstr (getenv w ''API_TOKEN'')) \<and>
   authorization (get_dicoms_request w study_filter page page_size) = Some (''Bearer '' @ fstr (getenv w ''API_TOKEN'')) \<and>
   authorization (get_dicom_request w uuid) = Some (''Bearer '' @ fstr (getenv w ''API_TOKEN'')) \<and>
   authorization (download_dicom_file_request w uuid filename) = Some (''Bearer '' @ fstr (getenv w ''API_TOKEN'')) \<and>
   authorization (delete_dicom_request w uuid) = Some (''Bearer '' @ fstr (getenv w ''API_TOKEN'')) \<and>
   authorization (idempotent_dicom_upload_request w file_name content) = Some (''Bearer '' @ fstr (getenv w ''API_TOKEN'')) \<and>
   authorization (get_reports_request w study_filter scan_filter page page_size) = Some (''Token '' @ fstr (getenv w ''API_TOKEN'')) \<and>
   authorization (get_report_request w uuid) = Some (''Token '' @ fstr (getenv w ''API_TOKEN'')) \<and>
   authorization (get_report_html_request w uuid) = Some (''Token '' @ fstr (getenv w ''API_TOKEN'')) \<and>
   authorization (get_echogpt_responses_request w) = Some (''Token '' @ fstr (getenv w ''API_TOKEN'')) \<and>
   authorization (get_echogpt_response_request w uuid) = Some (''Token '' @ fstr (getenv w ''API_TOKEN'')) \<and>
   authorization (create_user_measurement_request w dicom_uuid measurement_key measurement_type
       keyframe_type measurement_metadata frame_index val unit extra_metadata)
     = Some (''Token '' @ fstr (getenv w ''API_TOKEN'')) \<and>
   authorization (get_api_version_request w) = Some (''Token '' @ fstr (getenv w ''API_TOKEN'')) \<and>
   authorization (create_webhook_request w target) = Some (''Token '' @ fstr (getenv w ''API_TOKEN'')) \<and>
   authorization (get_webhooks_request w page page_size) = Some (''Token '' @ fstr (getenv w ''API_TOKEN'')) \<and>
   authorization (get_webhook_request w uuid) = Some (''Token '' @ fstr (getenv w ''API_TOKEN'')) \<and>
   authorization (update_webhook_request w uuid target) = Some (''Token '' @ fstr (getenv w ''API_TOKEN'')) \<and>
   authorization (delete_webhook_request w uuid) = Some (''Token '' @ fstr (getenv w ''API_TOKEN'')) \<and>
   authorization (get_all_studies_with_measurements_request w page page_size q name uuid_filter
       created_at_gte created_at_lte product_filter status_filter user_email view_types diseases
       measurements)
     = Some (''Token '' @ fstr (getenv w ''API_TOKEN'')) \<and>
   authorization (get_study_with_measurements_request w uuid) = Some (''Token '' @ fstr (getenv w ''API_TOKEN'')) \<and>
   authorization (get_study_metrics_request w) = Some (''Token '' @ fstr (getenv w ''API_TOKEN'')) \<and>
   authorization (get_filter_metadata_request w) = Some (''Token '' @ fstr (getenv w ''API_TOKEN'')) \<and>
   (getenv w ''API_TOKEN'' = Some token \<longrightarrow> fstr (getenv w ''API_TOKEN'') = token)"
  by (simp add: authorization_def request_defs Let_def fstr_def)

text \<open>With the environment of the repository's tests the two headers are these.\<close>

theorem authorization_scheme_per_family_witness:
  "authorization (get_scan_request creating_world ''scan-1'') = Some ''Bearer test-token'' \<and>
   authorization (get_report_request creating_world ''report-9'') = Some ''Token test-token''"
proof -
  have tok: "getenv creating_world ''API_TOKEN'' = Some ''test-token''"
    by (simp add: getenv_def creating_world_simps example_env_def)
  from authorization_scheme_per_family
    [where w = creating_world and uuid = "''scan-1''" and token = "''test-token''"]
    authorization_scheme_per_family
    [where w = creating_world and uuid = "''report-9''" and token = "''test-token''"] tok
  show ?thesis by simp
qed

end
